theory Spec2Isabelle
  imports Complex_Main "HOL-Library.Sublist" "HOL-Library.Log_Nat"
begin

section \<open>Values\<close>

text \<open>
  Floating-point numbers. Python's \<^verbatim>\<open>float\<close> and numpy's \<^verbatim>\<open>float64\<close> are IEEE binary64. A
  finite number is the real it stands for; the negative zero, the two infinities and
  NaN are values of their own, because \<^verbatim>\<open>json.load\<close> reads them and because numpy
  returns them from a division by zero instead of raising. \<open>Fin 0\<close> is the positive
  zero. A \<open>Fin x\<close> that the program can hold has an \<open>x\<close> that binary64 represents.
\<close>

datatype number = Fin real | NZero | PInf | NInf | NaN

text \<open>The nearest integer, a tie going to the even one.\<close>

definition round_half_even :: "real \<Rightarrow> int" where
  "round_half_even x =
     (let f = \<lfloor>x\<rfloor>; d = x - of_int f
      in if d < 1 / 2 then f else if 1 / 2 < d then f + 1
         else if even f then f else f + 1)"

text \<open>
  The distance between neighbouring binary64 numbers around \<open>x\<close>: \<open>2 ^ (e - 52)\<close> for
  \<open>2 ^ e \<le> |x| < 2 ^ (e + 1)\<close>, and \<open>2 ^ -1074\<close> below \<open>2 ^ -1022\<close>, where the
  subnormal numbers lie.
\<close>

definition ulp :: "real \<Rightarrow> real" where
  "ulp x = 2 ^ nat (bitlen \<lfloor>\<bar>x\<bar> * 2 ^ 1022\<rfloor> - 1) / 2 ^ 1074"

text \<open>
  Rounding of a real to binary64, as every arithmetic operation and every conversion
  does it: to the nearest representable number, a tie going to the one with the even
  significand; a result of magnitude \<open>2 ^ 1024\<close> or more is an infinity, and a result
  that rounds to zero keeps the sign of \<open>x\<close>.
\<close>

definition fl :: "real \<Rightarrow> number" where
  "fl x =
     (let y = of_int (round_half_even (x / ulp x)) * ulp x
      in if y = 0 then (if x < 0 then NZero else Fin 0)
         else if 2 ^ 1024 \<le> y then PInf
         else if y \<le> - (2 ^ 1024) then NInf
         else Fin y)"

text \<open>The sign bit, the real value of a finite number, and the two signed results.\<close>

fun is_neg :: "number \<Rightarrow> bool" where
  "is_neg (Fin a) = (a < 0)"
| "is_neg NZero = True"
| "is_neg NInf = True"
| "is_neg PInf = False"
| "is_neg NaN = False"

fun num_finite :: "number \<Rightarrow> bool" where
  "num_finite (Fin a) = True"
| "num_finite NZero = True"
| "num_finite _ = False"

fun num_val :: "number \<Rightarrow> real" where
  "num_val (Fin a) = a"
| "num_val _ = 0"

definition signed_zero :: "bool \<Rightarrow> number" where
  "signed_zero neg = (if neg then NZero else Fin 0)"

definition signed_inf :: "bool \<Rightarrow> number" where
  "signed_inf neg = (if neg then NInf else PInf)"

text \<open>
  \<^verbatim>\<open>a - b\<close>. The exact difference is rounded; an exact zero is positive, except
  that \<open>-0 - +0\<close> is \<open>-0\<close>.
\<close>

definition num_sub :: "number \<Rightarrow> number \<Rightarrow> number" where
  "num_sub a b =
     (if a = NaN \<or> b = NaN then NaN
      else if \<not> num_finite a then
        (if \<not> num_finite b \<and> is_neg a = is_neg b then NaN else a)
      else if \<not> num_finite b then signed_inf (\<not> is_neg b)
      else if num_val a = num_val b then
        (if a = NZero \<and> b = Fin 0 then NZero else Fin 0)
      else fl (num_val a - num_val b))"

text \<open>\<^verbatim>\<open>abs(a)\<close>\<close>

fun num_abs :: "number \<Rightarrow> number" where
  "num_abs (Fin a) = Fin \<bar>a\<bar>"
| "num_abs NZero = Fin 0"
| "num_abs PInf = PInf"
| "num_abs NInf = PInf"
| "num_abs NaN = NaN"

text \<open>
  \<^verbatim>\<open>a / b\<close> on numpy scalars. A zero divisor raises nothing (numpy only warns): the
  quotient is an infinity, or NaN for \<open>0 / 0\<close>. The sign of a zero or an infinity is
  the product of the signs.
\<close>

definition num_div :: "number \<Rightarrow> number \<Rightarrow> number" where
  "num_div a b =
     (let neg = (is_neg a \<noteq> is_neg b)
      in if a = NaN \<or> b = NaN then NaN
         else if \<not> num_finite a then (if \<not> num_finite b then NaN else signed_inf neg)
         else if \<not> num_finite b then signed_zero neg
         else if num_val b = 0 then (if num_val a = 0 then NaN else signed_inf neg)
         else if num_val a = 0 then signed_zero neg
         else fl (num_val a / num_val b))"

text \<open>
  \<^verbatim>\<open>a < b\<close> and \<^verbatim>\<open>a > b\<close>: every comparison with NaN is false, and the two zeros are
  equal.
\<close>

definition num_lt :: "number \<Rightarrow> number \<Rightarrow> bool" where
  "num_lt a b =
     (if a = NaN \<or> b = NaN then False
      else if a = PInf \<or> b = NInf then False
      else if a = NInf \<or> b = PInf then True
      else num_val a < num_val b)"

definition num_gt :: "number \<Rightarrow> number \<Rightarrow> bool" where
  "num_gt a b = num_lt b a"

text \<open>
  \<^verbatim>\<open>round(x, n)\<close> on a float, for \<open>n \<ge> 0\<close>: the decimal number with \<open>n\<close> places nearest
  to the exact value of \<open>x\<close>, a tie going to the even one, and then the binary64 number
  nearest to that decimal. A zero result keeps the sign of \<open>x\<close>; infinities and NaN
  round to themselves.
\<close>

definition decimal_float :: "bool \<Rightarrow> int \<Rightarrow> nat \<Rightarrow> number" where
  "decimal_float neg k n = (if k = 0 then signed_zero neg else fl (of_int k / 10 ^ n))"

fun py_round :: "number \<Rightarrow> nat \<Rightarrow> number" where
  "py_round (Fin x) n = decimal_float (x < 0) (round_half_even (x * 10 ^ n)) n"
| "py_round NZero n = NZero"
| "py_round PInf n = PInf"
| "py_round NInf n = NInf"
| "py_round NaN n = NaN"

text \<open>A non-negative number and a number that is not positive: NaN is neither.\<close>

fun num_nonneg :: "number \<Rightarrow> bool" where
  "num_nonneg (Fin a) = (0 \<le> a)"
| "num_nonneg NZero = True"
| "num_nonneg PInf = True"
| "num_nonneg NInf = False"
| "num_nonneg NaN = False"

fun num_nonpos :: "number \<Rightarrow> bool" where
  "num_nonpos (Fin a) = (a \<le> 0)"
| "num_nonpos NZero = True"
| "num_nonpos PInf = False"
| "num_nonpos NInf = True"
| "num_nonpos NaN = False"

text \<open>
  What \<^verbatim>\<open>json.load\<close> returns. A number written without fraction or exponent is a
  Python \<^verbatim>\<open>int\<close>, of any size (\<open>JInt\<close>); any other number is a \<^verbatim>\<open>float\<close> (\<open>JNum\<close>), the
  binary64 number nearest to the literal. An object is its list of members; the parser
  keeps one member per key, so the keys of a \<open>JObj\<close> are taken to be distinct.
\<close>

datatype json =
    JNull
  | JBool bool
  | JInt int
  | JNum number
  | JStr string
  | JArr "json list"
  | JObj "(string \<times> json) list"

text \<open>
  Exceptions, all of them instances of \<^verbatim>\<open>Exception\<close>. The first five are raised by
  the Python operations modelled below; \<open>Raised\<close> is an exception of a collaborator
  (file system, JSON parser, joblib, keras, numpy, the scaler, the model), named by its
  text.
\<close>

datatype exn =
  TypeError | KeyError | IndexError | ValueError | OverflowError | Raised string

text \<open>
  The value of the single key \<^verbatim>\<open>error\<close> of an error response: a fixed message, or
  \<^verbatim>\<open>str(e)\<close> of a caught exception.
\<close>

datatype err = Msg string | Str exn

text \<open>A numpy array: its shape and its elements in row-major order.\<close>

record ndarray =
  shape :: "nat list"
  data :: "number list"

section \<open>Collaborators\<close>

text \<open>
  The scaler and the model are artifacts of sklearn and keras, loaded from disk; the
  repository holds no code of theirs, so they are parameters.
  \<^item> \<open>transform\<close> takes the 60 x 1 window and returns the elements of its result;
  \<^item> \<open>inverse_transform\<close> stands for \<^verbatim>\<open>inverse_transform([[x]])[0][0]\<close>: the
    transformer contract returns an array of the shape it was given;
  \<^item> \<open>model_predict\<close> takes the elements of the 1 x 60 x 1 input and returns an array
    of any shape.
\<close>

record scaler =
  transform :: "number list \<Rightarrow> exn + number list"
  inverse_transform :: "number \<Rightarrow> exn + number"

record model =
  model_predict :: "number list \<Rightarrow> exn + ndarray"

text \<open>
  The world outside the process: the directory listing, the parsed content of a file
  (\<^verbatim>\<open>open\<close> followed by \<^verbatim>\<open>json.load\<close>), and the two loaders of the model registry,
  each keyed by the path it is given.

  The last two fields are numpy and the artifacts on a window of price values that
  are not all numbers (strings, nulls, nested lists, objects). What they do with it is
  not modelled, so it is left open:
  \<^item> \<open>np_array_error\<close> is the exception, if any, that
    \<^verbatim>\<open>np.array(last_60).reshape(-1, 1)\<close> raises on such a window (a ragged nesting);
  \<^item> \<open>other_window\<close> is what lines 41 to 53 of \<^verbatim>\<open>predict\<close> come to on such a window
    once the scaler and the model are loaded: an exception (a string compared with a
    number), the early return, or a predicted price and a last price that are numbers.
\<close>

record env =
  listdir :: "string \<Rightarrow> exn + string list"
  read_json :: "string \<Rightarrow> exn + json"
  joblib_load :: "string \<Rightarrow> exn + scaler"
  load_model :: "string \<Rightarrow> exn + model"
  np_array_error :: "json list \<Rightarrow> exn option"
  other_window :: "json list \<Rightarrow> scaler \<Rightarrow> model \<Rightarrow> exn + (err + number \<times> number)"

section \<open>Effects\<close>

text \<open>
  A computation returns a value or raises, and records the calls it made to the
  outside world, in order.
\<close>

datatype call = Listdir string | Open string | JoblibLoad string | LoadModel string

type_synonym 'a eff = "(exn + 'a) \<times> call list"

definition ret :: "'a \<Rightarrow> 'a eff" where
  "ret x = (Inr x, [])"

definition lift :: "exn + 'a \<Rightarrow> 'a eff" where
  "lift r = (r, [])"

definition bnd :: "'a eff \<Rightarrow> ('a \<Rightarrow> 'b eff) \<Rightarrow> 'b eff" where
  "bnd m f =
     (case m of
        (Inl e, t) \<Rightarrow> (Inl e, t)
      | (Inr x, t) \<Rightarrow> (case f x of (r, t') \<Rightarrow> (r, t @ t')))"

definition os_listdir :: "env \<Rightarrow> string \<Rightarrow> string list eff" where
  "os_listdir E p = (listdir E p, [Listdir p])"

definition open_json :: "env \<Rightarrow> string \<Rightarrow> json eff" where
  "open_json E p = (read_json E p, [Open p])"

definition do_joblib_load :: "env \<Rightarrow> string \<Rightarrow> scaler eff" where
  "do_joblib_load E p = (joblib_load E p, [JoblibLoad p])"

definition do_load_model :: "env \<Rightarrow> string \<Rightarrow> model eff" where
  "do_load_model E p = (load_model E p, [LoadModel p])"

text \<open>
  A response body: the error dictionary, or the endpoint's result.
\<close>

datatype 'a payload = Error err | Result 'a

text \<open>\<^verbatim>\<open>try: ... except Exception as e: return {"error": str(e)}\<close>\<close>

definition try_except :: "'a payload eff \<Rightarrow> 'a payload eff" where
  "try_except m =
     (case m of
        (Inl e, t) \<Rightarrow> (Inr (Error (Str e)), t)
      | (Inr p, t) \<Rightarrow> (Inr p, t))"

section \<open>Python operations on parsed JSON\<close>

text \<open>\<^verbatim>\<open>len(v)\<close>; a string is taken as the list of its characters.\<close>

fun py_len :: "json \<Rightarrow> exn + nat" where
  "py_len (JArr xs) = Inr (length xs)"
| "py_len (JObj kvs) = Inr (length kvs)"
| "py_len (JStr s) = Inr (length s)"
| "py_len _ = Inl TypeError"

text \<open>\<^verbatim>\<open>xs[-k:]\<close> on a list: the last \<open>k\<close> elements, all of them when there are fewer.\<close>

definition last_n :: "nat \<Rightarrow> 'a list \<Rightarrow> 'a list" where
  "last_n k xs = (if length xs \<le> k then xs else drop (length xs - k) xs)"

text \<open>
  \<^verbatim>\<open>v[-60:]\<close>, as the sequence the comprehension then iterates: a list gives its
  tail, a string its last characters; an object cannot be sliced (the exception is a
  \<^verbatim>\<open>TypeError\<close> up to Python 3.11 and a \<^verbatim>\<open>KeyError\<close> after it; the model has the first),
  and a number, a boolean or null has no \<^verbatim>\<open>len\<close> and never gets here.
\<close>

fun slice_last_60 :: "json \<Rightarrow> exn + json list" where
  "slice_last_60 (JArr xs) = Inr (last_n 60 xs)"
| "slice_last_60 (JStr s) = Inr (map (\<lambda>c. JStr [c]) (last_n 60 s))"
| "slice_last_60 _ = Inl TypeError"

text \<open>\<^verbatim>\<open>entry["price"]\<close>\<close>

fun get_price :: "json \<Rightarrow> exn + json" where
  "get_price (JObj kvs) =
     (case map_of kvs ''price'' of None \<Rightarrow> Inl KeyError | Some v \<Rightarrow> Inr v)"
| "get_price _ = Inl TypeError"

text \<open>\<^verbatim>\<open>[entry["price"] for entry in xs]\<close>: the first failing entry raises.\<close>

fun get_prices :: "json list \<Rightarrow> exn + json list" where
  "get_prices [] = Inr []"
| "get_prices (x # xs) =
     (case get_price x of
        Inl e \<Rightarrow> Inl e
      | Inr v \<Rightarrow> (case get_prices xs of Inl e \<Rightarrow> Inl e | Inr vs \<Rightarrow> Inr (v # vs)))"

text \<open>
  A price value as an element of a numeric array. A float is itself; an integer and
  a boolean (the integer 1 or 0) enter every later operation of \<^verbatim>\<open>predict\<close> (comparison,
  subtraction, division, \<^verbatim>\<open>float\<close>) converted to binary64, so they are converted here.
  An integer too large for binary64 is not taken as a number.
\<close>

fun np_scalar :: "json \<Rightarrow> number option" where
  "np_scalar (JNum x) = Some x"
| "np_scalar (JInt n) = (if num_finite (fl (of_int n)) then Some (fl (of_int n)) else None)"
| "np_scalar (JBool b) = Some (Fin (if b then 1 else 0))"
| "np_scalar _ = None"

text \<open>
  The elements of the column \<^verbatim>\<open>np.array(vs).reshape(-1, 1)\<close> when all values are
  numbers. \<open>Inl\<close> marks a window that is not one of numbers; nothing is raised for it
  here.
\<close>

fun np_column :: "json list \<Rightarrow> exn + number list" where
  "np_column [] = Inr []"
| "np_column (v # vs) =
     (case np_scalar v of
        None \<Rightarrow> Inl ValueError
      | Some x \<Rightarrow> (case np_column vs of Inl e \<Rightarrow> Inl e | Inr xs \<Rightarrow> Inr (x # xs)))"

text \<open>
  \<^verbatim>\<open>np.array(vs).reshape(-1, 1)\<close>: the numeric column (\<open>Inr\<close>), or the values as they
  are (\<open>Inl\<close>) when they are not all numbers and numpy raises nothing.
\<close>

definition np_array :: "env \<Rightarrow> json list \<Rightarrow> exn + (json list + number list)" where
  "np_array E vs =
     (case np_column vs of
        Inr last_60 \<Rightarrow> Inr (Inr last_60)
      | Inl _ \<Rightarrow> (case np_array_error E vs of Some e \<Rightarrow> Inl e | None \<Rightarrow> Inr (Inl vs)))"

text \<open>\<^verbatim>\<open>np.array(scaled).reshape(1, 60, 1)\<close>: the elements must be 60.\<close>

definition reshape_1_60_1 :: "number list \<Rightarrow> exn + number list" where
  "reshape_1_60_1 xs = (if length xs = 60 then Inr xs else Inl ValueError)"

text \<open>\<^verbatim>\<open>pred[0][0]\<close> on an array of shape \<open>(n, 1)\<close>\<close>

definition index_0_0 :: "ndarray \<Rightarrow> exn + number" where
  "index_0_0 a =
     (case data a of
        [] \<Rightarrow> Inl IndexError
      | x # _ \<Rightarrow> if hd (shape a) = 0 then Inl IndexError else Inr x)"

text \<open>\<^verbatim>\<open>last_60[-1][0]\<close>\<close>

definition last_row :: "number list \<Rightarrow> exn + number" where
  "last_row xs = (if xs = [] then Inl IndexError else Inr (last xs))"

text \<open>\<^verbatim>\<open>str\<close> of a non-negative integer and of a shape tuple\<close>

fun str_nat :: "nat \<Rightarrow> string" where
  "str_nat n =
     (if n < 10 then [''0123456789'' ! n]
      else str_nat (n div 10) @ [''0123456789'' ! (n mod 10)])"

fun join_comma :: "string list \<Rightarrow> string" where
  "join_comma [] = []"
| "join_comma [s] = s"
| "join_comma (s # t # ss) = s @ '', '' @ join_comma (t # ss)"

definition str_shape :: "nat list \<Rightarrow> string" where
  "str_shape s =
     (case s of
        [n] \<Rightarrow> ''('' @ str_nat n @ '',)''
      | _ \<Rightarrow> ''('' @ join_comma (map str_nat s) @ '')'')"

text \<open>\<^verbatim>\<open>s.replace(old, new)\<close>: every occurrence, found from the left, without overlap.\<close>

function py_replace :: "string \<Rightarrow> string \<Rightarrow> string \<Rightarrow> string" where
  "py_replace old new s =
     (if old = [] then new @ concat (map (\<lambda>c. c # new) s)
      else if s = [] then []
      else if prefix old s then new @ py_replace old new (drop (length old) s)
      else hd s # py_replace old new (tl s))"
  by pat_completeness auto
termination
  by (relation "measure (\<lambda>(old, new, s). length s)") auto

text \<open>\<^verbatim>\<open>s.endswith(t)\<close>\<close>

definition py_endswith :: "string \<Rightarrow> string \<Rightarrow> bool" where
  "py_endswith s t = suffix t s"

text \<open>
  The sequence a \<^verbatim>\<open>for\<close> iterates over: the elements of a list, the keys of an
  object, the characters of a string; nothing else is iterable.
\<close>

fun py_iter :: "json \<Rightarrow> exn + json list" where
  "py_iter (JArr xs) = Inr xs"
| "py_iter (JObj kvs) = Inr (map (\<lambda>kv. JStr (fst kv)) kvs)"
| "py_iter (JStr s) = Inr (map (\<lambda>c. JStr [c]) s)"
| "py_iter _ = Inl TypeError"









section \<open>The endpoints\<close>

subsection \<open>predict\<close>

record prediction_result =
  prediction :: string
  confidence :: number
  predicted_price :: number
  last_price :: number

text \<open>
  Lines 29 to 51 of \<^verbatim>\<open>predict\<close>: either the error of one of the two early returns
  (\<^verbatim>\<open>return {"error": ...}\<close>), or the pair
  \<^verbatim>\<open>(predicted_price, last_price)\<close> that the rest of the function works on.
\<close>

definition predict_prices ::
  "env \<Rightarrow> string \<Rightarrow> (err + number \<times> number) eff" where
  "predict_prices E coin =
     bnd (open_json E (''data/'' @ coin @ ''.json'')) (\<lambda>prices.
     bnd (lift (py_len prices)) (\<lambda>n.
     if n < 60 then
       ret (Inl (Msg ''Not enough data. Minimum 60 prices required.''))
     else
       bnd (lift (slice_last_60 prices)) (\<lambda>entries.
       bnd (lift (get_prices entries)) (\<lambda>values.
       bnd (lift (np_array E values)) (\<lambda>window.
       bnd (do_joblib_load E (''models/'' @ coin @ ''_scaler.gz'')) (\<lambda>scaler.
       bnd (do_load_model E (''models/'' @ coin @ ''.h5'')) (\<lambda>model.
       case window of
         Inl others \<Rightarrow> lift (other_window E others scaler model)
       | Inr last_60 \<Rightarrow>
           bnd (lift (transform scaler last_60)) (\<lambda>scaled.
           bnd (lift (reshape_1_60_1 scaled)) (\<lambda>X.
           bnd (lift (model_predict model X)) (\<lambda>pred.
           if length (shape pred) = 2 \<and> shape pred ! 1 = 1 then
             bnd (lift (index_0_0 pred)) (\<lambda>predicted_price_scaled.
             bnd (lift (inverse_transform scaler predicted_price_scaled)) (\<lambda>p.
             bnd (lift (last_row last_60)) (\<lambda>l.
             ret (Inr (p, l)))))
           else
             ret (Inl (Msg (''Unexpected prediction shape: ''
                              @ str_shape (shape pred))))))))))))))"

text \<open>Lines 53 to 61: direction, confidence and the rounded result.\<close>

definition predict_result :: "number \<Rightarrow> number \<Rightarrow> prediction_result" where
  "predict_result p l =
     (let direction = (if num_gt p l then ''up'' else ''down'');
          conf = num_div (num_abs (num_sub p l)) l
      in \<lparr>prediction = direction,
          confidence = py_round conf 4,
          predicted_price = py_round p 2,
          last_price = py_round l 2\<rparr>)"

definition predict :: "env \<Rightarrow> string \<Rightarrow> prediction_result payload eff" where
  "predict E coin =
     try_except
       (bnd (predict_prices E coin) (\<lambda>r.
          case r of
            Inl early \<Rightarrow> ret (Error early)
          | Inr (p, l) \<Rightarrow> ret (Result (predict_result p l))))"

subsection \<open>available-coins\<close>

definition available_coins :: "env \<Rightarrow> string list payload eff" where
  "available_coins E =
     try_except
       (bnd (os_listdir E ''data'') (\<lambda>files.
          ret (Result (map (py_replace ''.json'' [])
                           (filter (\<lambda>f. py_endswith f ''.json'') files)))))"

subsection \<open>debug-prices\<close>

record debug_result =
  coin_name :: string
  last_60_prices :: "json list"

text \<open>
  \<^verbatim>\<open>entry["price"] if isinstance(entry, dict) and "price" in entry else entry\<close>
\<close>

fun cleaned_entry :: "json \<Rightarrow> json" where
  "cleaned_entry (JObj kvs) =
     (case map_of kvs ''price'' of None \<Rightarrow> JObj kvs | Some v \<Rightarrow> v)"
| "cleaned_entry entry = entry"

definition debug_prices :: "env \<Rightarrow> string \<Rightarrow> debug_result payload eff" where
  "debug_prices E coin =
     try_except
       (bnd (open_json E (''data/'' @ coin @ ''.json'')) (\<lambda>prices.
        bnd (lift (py_iter prices)) (\<lambda>entries.
        let cleaned = map cleaned_entry entries
        in ret (Result \<lparr>coin_name = coin, last_60_prices = last_n 60 cleaned\<rparr>))))"

subsection \<open>signal\<close>



section \<open>A concrete deployment\<close>

text \<open>
  One coin, \<^verbatim>\<open>btc\<close>, with its price file, its scaler and its model. The scaler is one
  fitted to the range from 0 to 1, so both of its transforms return their argument;
  the model returns a fixed array. On a window that is not numeric, numpy raises
  nothing and the comparison with the last price raises a \<^verbatim>\<open>TypeError\<close>.
\<close>

definition unit_scaler :: scaler where
  "unit_scaler = \<lparr>transform = Inr, inverse_transform = Inr\<rparr>"

definition fixed_model :: "ndarray \<Rightarrow> model" where
  "fixed_model out = \<lparr>model_predict = (\<lambda>X. Inr out)\<rparr>"

text \<open>
  Price records: of a float given as a number, of the float with the exact value \<open>x\<close>,
  and of the float that the decimal literal \<open>x\<close> is read as.
\<close>

definition number_point :: "number \<Rightarrow> json" where
  "number_point v = JObj [(''price'', JNum v)]"

definition price_point :: "real \<Rightarrow> json" where
  "price_point x = number_point (Fin x)"


definition number_series :: "nat \<Rightarrow> number \<Rightarrow> json" where
  "number_series n v = JArr (replicate n (number_point v))"

definition flat_series :: "nat \<Rightarrow> real \<Rightarrow> json" where
  "flat_series n x = number_series n (Fin x)"

definition no_such_file :: exn where
  "no_such_file = Raised ''No such file or directory''"

definition btc_env :: "json \<Rightarrow> ndarray \<Rightarrow> env" where
  "btc_env prices out =
     \<lparr>listdir = (\<lambda>p. if p = ''data'' then Inr [''btc.json''] else Inl no_such_file),
      read_json = (\<lambda>p. if p = ''data/btc.json'' then Inr prices else Inl no_such_file),
      joblib_load =
        (\<lambda>p. if p = ''models/btc_scaler.gz'' then Inr unit_scaler else Inl no_such_file),
      load_model =
        (\<lambda>p. if p = ''models/btc.h5'' then Inr (fixed_model out) else Inl no_such_file),
      np_array_error = (\<lambda>vs. None),
      other_window = (\<lambda>vs sc m. Inl TypeError)\<rparr>"

text \<open>
  A deployment with price files only: the data directory holds the given files, by
  name, and the model registry is empty.
\<close>

definition data_env :: "(string \<times> json) list \<Rightarrow> env" where
  "data_env files =
     \<lparr>listdir = (\<lambda>p. if p = ''data'' then Inr (map fst files) else Inl no_such_file),
      read_json =
        (\<lambda>p. case map_of (map (\<lambda>(name, content). (''data/'' @ name, content)) files) p of
               None \<Rightarrow> Inl no_such_file
             | Some content \<Rightarrow> Inr content),
      joblib_load = (\<lambda>p. Inl no_such_file),
      load_model = (\<lambda>p. Inl no_such_file),
      np_array_error = (\<lambda>vs. None),
      other_window = (\<lambda>vs sc m. Inl TypeError)\<rparr>"

text \<open>The array of shape \<open>(1, 1)\<close> holding one number.\<close>

definition number_output :: "number \<Rightarrow> ndarray" where
  "number_output v = \<lparr>shape = [1, 1], data = [v]\<rparr>"

definition scalar_output :: "real \<Rightarrow> ndarray" where
  "scalar_output x = number_output (Fin x)"

section \<open>Words of the specification\<close>

text \<open>
  \<open>rounds_to n v w\<close>: the float \<open>w\<close> is \<open>v\<close> rounded to \<open>n\<close> decimal places, that is,
  \<open>w\<close> is the binary64 number nearest to a decimal number with \<open>n\<close> places, and no
  decimal number with \<open>n\<close> places is nearer to the exact value of \<open>v\<close> than that one;
  a negative zero, an infinity or NaN is its own rounding.
\<close>

fun rounds_to :: "nat \<Rightarrow> number \<Rightarrow> number \<Rightarrow> bool" where
  "rounds_to n (Fin x) w =
     (let z = x * 10 ^ n
      in (\<bar>of_int \<lfloor>z\<rfloor> - z\<bar> \<le> 1 / 2 \<and> w = decimal_float (x < 0) \<lfloor>z\<rfloor> n)
       \<or> (\<bar>of_int \<lceil>z\<rceil> - z\<bar> \<le> 1 / 2 \<and> w = decimal_float (x < 0) \<lceil>z\<rceil> n))"
| "rounds_to n v w = (v = w)"

section \<open>Basic facts\<close>

lemma bnd_Inr: "bnd (Inr x, t) f = (fst (f x), t @ snd (f x))"
  by (simp add: bnd_def split: prod.splits)

lemma bnd_Inl: "bnd (Inl e, t) f = (Inl e, t)"
  by (simp add: bnd_def)

lemma bnd_lift_Inr: "bnd (lift (Inr x)) f = f x"
  by (simp add: bnd_def lift_def split: prod.splits)

lemma bnd_lift_Inl: "bnd (lift (Inl e)) f = (Inl e, [])"
  by (simp add: bnd_def lift_def)

lemma get_prices_length: "get_prices xs = Inr vs \<Longrightarrow> length vs = length xs"
  by (induction xs arbitrary: vs) (auto split: sum.splits)

lemma np_column_length: "np_column vs = Inr W \<Longrightarrow> length W = length vs"
  by (induction vs arbitrary: W) (auto split: sum.splits option.splits)

lemma np_array_numeric: "np_column vs = Inr W \<Longrightarrow> np_array E vs = Inr (Inr W)"
  by (simp add: np_array_def)

lemma length_last_n: "length (last_n k xs) = min (length xs) k"
  by (simp add: last_n_def)

lemma last_n_map: "last_n k (map f xs) = map f (last_n k xs)"
  by (simp add: last_n_def drop_map)

lemma last_n_drop: "last_n k xs = drop (length xs - k) xs"
  by (simp add: last_n_def)

lemma get_prices_replicate:
  "get_prices (replicate n (JObj [(''price'', v)])) = Inr (replicate n v)"
  by (induction n) simp_all

lemma np_column_replicate: "np_column (replicate n (JNum x)) = Inr (replicate n x)"
  by (induction n) simp_all

lemma num_lt_irrefl: "\<not> num_lt x x"
  by (simp add: num_lt_def)

subsection \<open>File names\<close>

lemma py_replace_no_dot:
  "CHR ''.'' \<notin> set s \<Longrightarrow> py_replace ''.json'' [] (s @ ''.json'') = s"
proof (induction s)
  case Nil
  show ?case by simp
next
  case (Cons c cs)
  then have "c \<noteq> CHR ''.''" and "py_replace ''.json'' [] (cs @ ''.json'') = cs"
    by auto
  then show ?case
    by (subst py_replace.simps) simp
qed

lemma available_coins_plain_names:
  assumes "listdir E ''data'' = Inr (map (\<lambda>s. s @ ''.json'') stems)"
    and "\<forall>s \<in> set stems. CHR ''.'' \<notin> set s"
  shows "fst (available_coins E) = Inr (Result stems)"
proof -
  have "filter (\<lambda>f. py_endswith f ''.json'') (map (\<lambda>s. s @ ''.json'') stems)
          = map (\<lambda>s. s @ ''.json'') stems"
    by (simp add: py_endswith_def filter_map o_def suffix_def)
  moreover have "map (py_replace ''.json'' []) (map (\<lambda>s. s @ ''.json'') stems) = stems"
    using assms(2) by (induction stems) (simp_all add: py_replace_no_dot del: py_replace.simps)
  ultimately show ?thesis
    using assms(1)
    by (simp add: available_coins_def os_listdir_def bnd_Inr ret_def try_except_def
        del: py_replace.simps)
qed

lemma available_coins_ignores_registry:
  "available_coins (E\<lparr>joblib_load := j, load_model := m\<rparr>) = available_coins E"
  by (simp add: available_coins_def os_listdir_def)

subsection \<open>Rounding to an integer\<close>

lemma round_half_even_near: "\<bar>of_int (round_half_even z) - z\<bar> \<le> 1 / 2"
proof -
  have "of_int \<lfloor>z\<rfloor> \<le> z" and "z < of_int \<lfloor>z\<rfloor> + 1"
    by linarith+
  then show ?thesis
    by (auto simp: round_half_even_def Let_def)
qed

lemma round_half_even_nonneg: "0 \<le> z \<Longrightarrow> 0 \<le> round_half_even z"
  by (auto simp: round_half_even_def Let_def)

lemma round_half_even_nonpos: "z \<le> 0 \<Longrightarrow> round_half_even z \<le> 0"
  by (auto simp: round_half_even_def Let_def)

lemma round_half_even_of_int: "round_half_even (of_int k) = k"
  by (simp add: round_half_even_def Let_def)

lemma round_half_even_floor_or_ceiling:
  "round_half_even z = \<lfloor>z\<rfloor> \<or> round_half_even z = \<lceil>z\<rceil>"
proof (cases "of_int \<lfloor>z\<rfloor> = z")
  case True
  then obtain k :: int where "z = of_int k" by metis
  then show ?thesis by (simp add: round_half_even_of_int)
next
  case False
  then have "\<lceil>z\<rceil> = \<lfloor>z\<rfloor> + 1"
    by (metis ceiling_altdef)
  then show ?thesis by (simp add: round_half_even_def Let_def)
qed

subsection \<open>Rounding to binary64\<close>

lemma bitlen_between:
  assumes "2 ^ n \<le> z" and "z < 2 ^ (n + 1)"
  shows "bitlen z = int n + 1"
proof -
  have pos: "0 < z"
    using assms(1) by (smt (verit) zero_less_power)
  have "(2::nat) ^ n \<le> nat z"
    using assms(1) pos by (simp add: le_nat_iff)
  then have lower: "Suc n \<le> floorlog 2 (nat z)"
    by (rule floorlog_ge_SucI) simp
  have "nat z < 2 ^ (n + 1)"
    using assms(2) pos by (simp add: nat_less_iff)
  then have upper: "floorlog 2 (nat z) \<le> n + 1"
    by (rule floorlog_leI) simp_all
  from lower upper show ?thesis
    by (simp add: bitlen_def)
qed

lemma ulp_pos: "0 < ulp x"
  by (simp add: ulp_def)

lemma scale_bounds:
  fixes a :: real
  assumes "n + j = c + d" and "2 ^ d \<le> a * 2 ^ j" and "a * 2 ^ j < 2 ^ (d + 1)"
  shows "2 ^ n \<le> a * 2 ^ c" and "a * 2 ^ c < 2 ^ (n + 1)"
proof -
  have pw: "(2::real) ^ c * 2 ^ d = 2 ^ j * 2 ^ n"
    using assms(1) by (simp only: flip: power_add) (simp add: add.commute)
  have eq: "(a * 2 ^ c) * 2 ^ d = (a * 2 ^ j) * 2 ^ n"
    by (simp only: mult.assoc pw)
  have "2 ^ d * 2 ^ n \<le> (a * 2 ^ j) * 2 ^ n"
    by (rule mult_right_mono[OF assms(2)]) simp
  then have "2 ^ n * 2 ^ d \<le> (a * 2 ^ c) * 2 ^ d"
    by (simp only: eq mult.commute[of "2 ^ d" "2 ^ n"])
  then show "2 ^ n \<le> a * 2 ^ c"
    by (rule mult_right_le_imp_le) simp
  have "(a * 2 ^ j) * 2 ^ n < 2 ^ (d + 1) * 2 ^ n"
    by (rule mult_strict_right_mono[OF assms(3)]) simp
  also have "(2::real) ^ (d + 1) * 2 ^ n = 2 ^ (n + 1) * 2 ^ d"
    by (simp add: power_add)
  finally have "(a * 2 ^ c) * 2 ^ d < 2 ^ (n + 1) * 2 ^ d"
    by (simp only: eq)
  then show "a * 2 ^ c < 2 ^ (n + 1)"
    by (rule mult_right_less_imp_less) simp
qed

text \<open>
  For \<open>x\<close> with \<open>2 ^ 52 \<le> |x| * 2 ^ j < 2 ^ 53\<close> the neighbouring binary64 numbers are
  \<open>2 ^ -j\<close> apart, and rounding \<open>x\<close> is rounding \<open>x * 2 ^ j\<close> to an integer.
\<close>

lemma ulp_scaled:
  assumes "j \<le> 1074" and "2 ^ 52 \<le> \<bar>x\<bar> * 2 ^ j" and "\<bar>x\<bar> * 2 ^ j < 2 ^ 53"
  shows "ulp x = 1 / 2 ^ j"
proof -
  define n where "n = 1074 - j"
  have nj: "n + j = 1022 + 52" using assms(1) by (simp add: n_def)
  have hi': "\<bar>x\<bar> * 2 ^ j < 2 ^ (52 + 1)" using assms(3) by simp
  have lo: "2 ^ n \<le> \<bar>x\<bar> * 2 ^ 1022" and hi: "\<bar>x\<bar> * 2 ^ 1022 < 2 ^ (n + 1)"
    using scale_bounds[OF nj assms(2) hi'] by blast+
  let ?z = "\<lfloor>\<bar>x\<bar> * 2 ^ 1022\<rfloor>"
  have "2 ^ n \<le> ?z"
    using lo by (simp add: le_floor_iff del: power_numeral)
  moreover have "?z < 2 ^ (n + 1)"
    using hi by (simp add: floor_less_iff)
  ultimately have "bitlen ?z = int n + 1"
    by (rule bitlen_between)
  then have "ulp x = 2 ^ n / 2 ^ (n + j)"
    using nj by (simp add: ulp_def)
  also have "\<dots> = 1 / 2 ^ j" by (simp add: power_add)
  finally show ?thesis .
qed

lemma fl_scaled:
  assumes "j \<le> 1074" and "2 ^ 52 \<le> \<bar>x\<bar> * 2 ^ j" and "\<bar>x\<bar> * 2 ^ j < 2 ^ 53"
  shows "fl x = Fin (of_int (round_half_even (x * 2 ^ j)) / 2 ^ j)"
proof -
  let ?k = "round_half_even (x * 2 ^ j)"
  have u: "ulp x = 1 / 2 ^ j"
    using assms by (rule ulp_scaled)
  have near: "\<bar>of_int ?k - x * 2 ^ j\<bar> \<le> 1 / 2"
    by (rule round_half_even_near)
  have absx: "\<bar>x * 2 ^ j\<bar> = \<bar>x\<bar> * 2 ^ j"
    by (simp add: abs_mult)
  have lo: "2 ^ 52 - 1 / 2 \<le> \<bar>real_of_int ?k\<bar>"
    using near assms(2) absx by linarith
  have hi: "\<bar>real_of_int ?k\<bar> \<le> 2 ^ 53 + 1 / 2"
    using near assms(3) absx by linarith
  have nz: "real_of_int ?k / 2 ^ j \<noteq> 0"
    using lo by auto
  have one: "(1::real) \<le> 2 ^ j" by simp
  have "\<bar>real_of_int ?k / 2 ^ j\<bar> \<le> \<bar>real_of_int ?k\<bar>"
    using one by (simp add: abs_divide divide_le_eq mult_le_cancel_left1)
  also note hi
  also have "(2::real) ^ 53 + 1 / 2 < 2 ^ 54" by simp
  also have "(2::real) ^ 54 < 2 ^ 1024"
    by (rule power_strict_increasing) simp_all
  finally have small: "\<bar>real_of_int ?k / 2 ^ j\<bar> < 2 ^ 1024" .
  define y where "y = real_of_int ?k / 2 ^ j"
  have y_eq: "of_int (round_half_even (x / ulp x)) * ulp x = y"
    by (simp add: u y_def)
  have "y \<noteq> 0" and "\<not> 2 ^ 1024 \<le> y" and "\<not> y \<le> - (2 ^ 1024)"
    using nz small unfolding y_def by linarith+
  then have "fl x = Fin y"
    by (simp only: fl_def Let_def y_eq if_False)
  then show ?thesis
    by (simp only: y_def)
qed

text \<open>A number that binary64 represents is its own rounding.\<close>

lemma fl_exact:
  assumes "j \<le> 1074" and "2 ^ 52 \<le> \<bar>x\<bar> * 2 ^ j" and "\<bar>x\<bar> * 2 ^ j < 2 ^ 53"
    and "of_int k = x * 2 ^ j"
  shows "fl x = Fin x"
proof -
  have "round_half_even (x * 2 ^ j) = k"
    using round_half_even_of_int[of k] assms(4) by simp
  then have "fl x = Fin (of_int k / 2 ^ j)"
    using fl_scaled[OF assms(1-3)] by simp
  then show ?thesis
    using assms(4) by simp
qed

lemma fl_cases:
  obtains "fl x = NZero" and "x < 0"
  | "fl x = Fin 0" and "0 \<le> x"
  | "fl x = PInf" and "0 < x"
  | "fl x = NInf" and "x < 0"
  | y where "fl x = Fin y" and "y \<noteq> 0" and "0 < x \<longleftrightarrow> 0 < y" and "x < 0 \<longleftrightarrow> y < 0"
proof -
  define k where "k = round_half_even (x / ulp x)"
  define y where "y = of_int k * ulp x"
  have u: "0 < ulp x" by (rule ulp_pos)
  have fl_eq: "fl x = (if y = 0 then (if x < 0 then NZero else Fin 0)
                      else if 2 ^ 1024 \<le> y then PInf
                      else if y \<le> - (2 ^ 1024) then NInf else Fin y)"
    by (simp only: fl_def Let_def y_def k_def)
  have sign_pos: "0 < y \<Longrightarrow> 0 < x"
  proof (rule ccontr)
    assume "0 < y" and "\<not> 0 < x"
    then have "x / ulp x \<le> 0" using u by (simp add: divide_le_0_iff)
    then have "k \<le> 0" unfolding k_def by (rule round_half_even_nonpos)
    then have "y \<le> 0" unfolding y_def using u by (simp add: mult_le_0_iff)
    with \<open>0 < y\<close> show False by simp
  qed
  have sign_neg: "y < 0 \<Longrightarrow> x < 0"
  proof (rule ccontr)
    assume "y < 0" and "\<not> x < 0"
    then have "0 \<le> x / ulp x" using u by simp
    then have "0 \<le> k" unfolding k_def by (rule round_half_even_nonneg)
    then have "0 \<le> y" unfolding y_def using u by simp
    with \<open>y < 0\<close> show False by simp
  qed
  have sign_zero: "x = 0 \<Longrightarrow> y = 0"
    by (simp add: y_def k_def round_half_even_def)
  have big: "(0::real) < 2 ^ 1024" by simp
  consider "y = 0" | "y \<noteq> 0" "2 ^ 1024 \<le> y" | "y \<noteq> 0" "\<not> 2 ^ 1024 \<le> y" "y \<le> - (2 ^ 1024)"
    | "y \<noteq> 0" "\<not> 2 ^ 1024 \<le> y" "\<not> y \<le> - (2 ^ 1024)"
    by blast
  then show thesis
  proof cases
    case 1
    then show thesis using fl_eq that(1,2) by (cases "x < 0") simp_all
  next
    case 2
    then have "0 < y" using big by linarith
    then show thesis using fl_eq 2 sign_pos that(3) by simp
  next
    case 3
    then have "y < 0" using big by linarith
    then show thesis using fl_eq 3 sign_neg that(4) by simp
  next
    case 4
    then have "fl x = Fin y" using fl_eq by simp
    moreover have "0 < x \<longleftrightarrow> 0 < y" and "x < 0 \<longleftrightarrow> y < 0"
      using sign_pos sign_neg sign_zero 4(1) by (smt (verit))+
    ultimately show thesis using 4(1) that(5) by blast
  qed
qed

lemma fl_not_nan: "fl x \<noteq> NaN"
  by (rule fl_cases[of x]) simp_all

lemma fl_nonneg: "0 \<le> x \<Longrightarrow> num_nonneg (fl x)"
  by (rule fl_cases[of x]) auto

lemma fl_nonpos: "x \<le> 0 \<Longrightarrow> num_nonpos (fl x)"
  by (rule fl_cases[of x]) auto

subsection \<open>Rounding to decimal places\<close>

lemma decimal_float_nonneg: "0 \<le> k \<Longrightarrow> \<not> neg \<or> k \<noteq> 0 \<Longrightarrow> num_nonneg (decimal_float neg k n)"
  by (auto simp: decimal_float_def signed_zero_def intro: fl_nonneg)

lemma py_round_nonneg: "num_nonneg v \<Longrightarrow> num_nonneg (py_round v n)"
proof (cases v)
  case (Fin x)
  assume "num_nonneg v"
  with Fin have "0 \<le> x" by simp
  then have "0 \<le> round_half_even (x * 10 ^ n)"
    by (intro round_half_even_nonneg) simp
  with \<open>0 \<le> x\<close> Fin show ?thesis
    by (simp add: decimal_float_def signed_zero_def fl_nonneg)
qed simp_all

lemma py_round_nonpos: "num_nonpos v \<Longrightarrow> num_nonpos (py_round v n)"
proof (cases v)
  case (Fin x)
  assume "num_nonpos v"
  with Fin have "x \<le> 0" by simp
  then have "x * 10 ^ n \<le> 0"
    by (simp add: mult_le_0_iff)
  then have "round_half_even (x * 10 ^ n) \<le> 0"
    by (rule round_half_even_nonpos)
  then have "real_of_int (round_half_even (x * 10 ^ n)) / 10 ^ n \<le> 0"
    by (simp add: divide_le_0_iff)
  with Fin show ?thesis
    by (simp add: decimal_float_def signed_zero_def fl_nonpos)
qed simp_all

lemma py_round_not_finite: "\<not> num_finite v \<Longrightarrow> \<not> num_finite (py_round v n)"
  by (cases v) simp_all

lemma py_round_rounds_to: "rounds_to n v (py_round v n)"
proof (cases v)
  case (Fin x)
  let ?z = "x * 10 ^ n"
  have near: "\<bar>of_int (round_half_even ?z) - ?z\<bar> \<le> 1 / 2"
    by (rule round_half_even_near)
  from round_half_even_floor_or_ceiling[of ?z] near Fin show ?thesis
    by (auto simp: Let_def)
qed simp_all

subsection \<open>The sign of the confidence\<close>

lemma num_sub_not_nan: "num_finite a \<Longrightarrow> num_finite b \<Longrightarrow> num_sub a b \<noteq> NaN"
  by (cases a; cases b) (simp_all add: num_sub_def fl_not_nan)

lemma num_abs_nan: "num_abs d = NaN \<longleftrightarrow> d = NaN"
  by (cases d) simp_all

lemma num_abs_sign: "\<not> is_neg (num_abs d)"
  by (cases d) simp_all

lemma num_div_sign:
  assumes "a \<noteq> NaN" and "\<not> is_neg a" and "num_finite b"
  shows "0 < num_val b \<Longrightarrow> num_nonneg (num_div a b)"
    and "num_val b < 0 \<Longrightarrow> num_nonpos (num_div a b)"
    and "num_val b = 0 \<Longrightarrow> \<not> num_finite (num_div a b)"
proof -
  show "0 < num_val b \<Longrightarrow> num_nonneg (num_div a b)"
    using assms
    by (cases a; cases b)
       (auto simp: num_div_def Let_def signed_zero_def signed_inf_def intro!: fl_nonneg)
  show "num_val b < 0 \<Longrightarrow> num_nonpos (num_div a b)"
    using assms
    by (cases a; cases b)
       (auto simp: num_div_def Let_def signed_zero_def signed_inf_def divide_le_0_iff
             intro!: fl_nonpos)
  show "num_val b = 0 \<Longrightarrow> \<not> num_finite (num_div a b)"
    using assms
    by (cases a; cases b) (auto simp: num_div_def Let_def signed_inf_def)
qed

lemma confidence_sign:
  assumes "num_finite p" and "num_finite l"
  defines "c \<equiv> num_div (num_abs (num_sub p l)) l"
  shows "0 < num_val l \<Longrightarrow> num_nonneg c"
    and "num_val l < 0 \<Longrightarrow> num_nonpos c"
    and "num_val l = 0 \<Longrightarrow> \<not> num_finite c"
proof -
  have a: "num_abs (num_sub p l) \<noteq> NaN"
    using assms(1,2) by (simp add: num_abs_nan num_sub_not_nan)
  have b: "\<not> is_neg (num_abs (num_sub p l))"
    by (rule num_abs_sign)
  show "0 < num_val l \<Longrightarrow> num_nonneg c"
    unfolding c_def using num_div_sign(1)[OF a b assms(2)] .
  show "num_val l < 0 \<Longrightarrow> num_nonpos c"
    unfolding c_def using num_div_sign(2)[OF a b assms(2)] .
  show "num_val l = 0 \<Longrightarrow> \<not> num_finite c"
    unfolding c_def using num_div_sign(3)[OF a b assms(2)] .
qed

subsection \<open>Some binary64 numbers\<close>


lemma fl_5: "fl 5 = Fin 5"
  by (rule fl_exact[where j = 50 and k = "5 * 2 ^ 50"]) simp_all

lemma fl_50: "fl 50 = Fin 50"
  by (rule fl_exact[where j = 47 and k = "50 * 2 ^ 47"]) simp_all

lemma fl_minus_50: "fl (- 50) = Fin (- 50)"
  by (rule fl_exact[where j = 47 and k = "- 50 * 2 ^ 47"]) simp_all

lemma fl_minus_100: "fl (- 100) = Fin (- 100)"
  by (rule fl_exact[where j = 46 and k = "- 100 * 2 ^ 46"]) simp_all

lemma fl_minus_half: "fl (- (1 / 2)) = Fin (- (1 / 2))"
  by (rule fl_exact[where j = 53 and k = "- (2 ^ 52)"]) simp_all

subsection \<open>The two halves of predict\<close>

lemma predict_prices_ok:
  assumes "read_json E (''data/'' @ coin @ ''.json'') = Inr (JArr ps)"
    and "60 \<le> length ps"
    and "get_prices (last_n 60 ps) = Inr vs"
    and "np_column vs = Inr W"
    and "joblib_load E (''models/'' @ coin @ ''_scaler.gz'') = Inr sc"
    and "load_model E (''models/'' @ coin @ ''.h5'') = Inr m"
    and "transform sc W = Inr W'"
    and "length W' = 60"
    and "model_predict m W' = Inr out"
    and "shape out = [n, 1]" and "0 < n" and "data out = x # xs"
    and "inverse_transform sc x = Inr p"
  shows "fst (predict_prices E coin) = Inr (Inr (p, last W))"
proof -
  have "length W = 60"
    using assms(2-4) by (simp add: np_column_length get_prices_length length_last_n)
  then have "W \<noteq> []" by auto
  moreover have "np_array E vs = Inr (Inr W)"
    using assms(4) by (rule np_array_numeric)
  ultimately show ?thesis
    using assms
    by (simp add: predict_prices_def open_json_def do_joblib_load_def do_load_model_def
        bnd_Inr bnd_lift_Inr ret_def reshape_1_60_1_def index_0_0_def last_row_def)
qed

lemma predict_of_prices:
  "fst (predict E coin) =
     (case fst (predict_prices E coin) of
        Inl e \<Rightarrow> Inr (Error (Str e))
      | Inr (Inl early) \<Rightarrow> Inr (Error early)
      | Inr (Inr (p, l)) \<Rightarrow> Inr (Result (predict_result p l)))"
  by (cases "predict_prices E coin")
     (auto simp: predict_def try_except_def bnd_def ret_def split: sum.splits prod.splits)

lemma btc_number_prices_ok:
  "fst (predict_prices (btc_env (number_series 60 l) (number_output p)) ''btc'')
     = Inr (Inr (p, l))"
proof -
  let ?E = "btc_env (number_series 60 l) (number_output p)"
  have "fst (predict_prices ?E ''btc'') = Inr (Inr (p, last (replicate 60 l)))"
    by (rule predict_prices_ok[where ps = "replicate 60 (number_point l)"
          and vs = "replicate 60 (JNum l)" and sc = unit_scaler
          and m = "fixed_model (number_output p)" and W' = "replicate 60 l"
          and out = "number_output p" and n = 1 and x = p and xs = "[]"])
       (simp_all add: btc_env_def number_series_def number_point_def unit_scaler_def
          fixed_model_def number_output_def last_n_def get_prices_replicate
          np_column_replicate)
  then show ?thesis by simp
qed

lemma btc_prices_ok:
  "fst (predict_prices (btc_env (flat_series 60 l) (scalar_output p)) ''btc'')
     = Inr (Inr (Fin p, Fin l))"
  by (simp add: flat_series_def scalar_output_def btc_number_prices_ok)

lemma btc_predict:
  "fst (predict (btc_env (flat_series 60 l) (scalar_output p)) ''btc'')
     = Inr (Result (predict_result (Fin p) (Fin l)))"
  by (simp add: predict_of_prices btc_prices_ok)

section \<open>The claims\<close>

text \<open>
  C1, as it holds. The price file is a list of at least 60 entries whose last 60 are
  records with a numeric price, the scaler and the model load, the scaler returns a
  window of 60 values, the model returns an array of shape \<open>(n, 1)\<close> with \<open>n > 0\<close>, and
  the inverse transform returns a finite number. If moreover the last price is finite
  and greater than zero, then predict returns a result whose direction is "up" or
  "down" and whose confidence is a non-negative number.
\<close>

theorem predict_well_formed_result:
  assumes "read_json E (''data/'' @ coin @ ''.json'') = Inr (JArr ps)"
    and "60 \<le> length ps"
    and "get_prices (last_n 60 ps) = Inr vs"
    and "np_column vs = Inr W"
    and "joblib_load E (''models/'' @ coin @ ''_scaler.gz'') = Inr sc"
    and "load_model E (''models/'' @ coin @ ''.h5'') = Inr m"
    and "transform sc W = Inr W'"
    and "length W' = 60"
    and "model_predict m W' = Inr out"
    and "shape out = [n, 1]" and "0 < n" and "data out = x # xs"
    and "inverse_transform sc x = Inr (Fin p)"
    and "last W = Fin l" and "0 < l"
  shows "\<exists>r. fst (predict E coin) = Inr (Result r)
           \<and> (prediction r = ''up'' \<or> prediction r = ''down'')
           \<and> num_nonneg (confidence r)"
proof -
  have "fst (predict_prices E coin) = Inr (Inr (Fin p, last W))"
    using assms(1-13) by (rule predict_prices_ok)
  then have res: "fst (predict E coin) = Inr (Result (predict_result (Fin p) (Fin l)))"
    using assms(14) by (simp add: predict_of_prices)
  have "num_nonneg (num_div (num_abs (num_sub (Fin p) (Fin l))) (Fin l))"
    using assms(15) by (intro confidence_sign(1)) simp_all
  then have "num_nonneg (confidence (predict_result (Fin p) (Fin l)))"
    by (simp add: predict_result_def Let_def py_round_nonneg del: py_round.simps)
  moreover have "prediction (predict_result (Fin p) (Fin l)) = ''up''
      \<or> prediction (predict_result (Fin p) (Fin l)) = ''down''"
    by (simp add: predict_result_def Let_def)
  ultimately show ?thesis using res by blast
qed

theorem predict_well_formed_result_witness:
  "\<exists>r. fst (predict (btc_env (flat_series 60 100) (scalar_output 105)) ''btc'')
          = Inr (Result r)
       \<and> (prediction r = ''up'' \<or> prediction r = ''down'')
       \<and> num_nonneg (confidence r)"
  by (rule predict_well_formed_result[where ps = "replicate 60 (price_point 100)"
        and vs = "replicate 60 (JNum (Fin 100))" and sc = unit_scaler
        and m = "fixed_model (scalar_output 105)" and W = "replicate 60 (Fin 100)"
        and W' = "replicate 60 (Fin 100)" and out = "scalar_output 105" and n = 1
        and x = "Fin 105" and xs = "[]" and p = 105 and l = 100])
     (simp_all add: btc_env_def flat_series_def number_series_def price_point_def
        number_point_def unit_scaler_def fixed_model_def scalar_output_def
        number_output_def last_n_def get_prices_replicate np_column_replicate)

text \<open>
  C1 as stated fails: a series of 60 prices that are all zero, with a model that
  predicts zero, has at least 60 points and well-formed artifacts, and predict returns
  a result whose confidence is NaN.
\<close>

theorem predict_zero_series_confidence_nan:
  "fst (predict (btc_env (flat_series 60 0) (scalar_output 0)) ''btc'')
     = Inr (Result \<lparr>prediction = ''down'', confidence = NaN,
                    predicted_price = Fin 0, last_price = Fin 0\<rparr>)
   \<and> \<not> num_nonneg NaN"
  by (simp add: btc_predict predict_result_def num_gt_def num_lt_def num_sub_def
      num_div_def decimal_float_def signed_zero_def round_half_even_def)

text \<open>
  C2. When the price file holds a list of fewer than 60 entries, predict returns the
  error "Not enough data. Minimum 60 prices required.", and the only call it made to
  the outside world is the opening of the price file: neither loader of the model
  registry was called.
\<close>

theorem predict_insufficient_data:
  assumes "read_json E (''data/'' @ coin @ ''.json'') = Inr (JArr ps)"
    and "length ps < 60"
  shows "predict E coin =
           (Inr (Error (Msg ''Not enough data. Minimum 60 prices required.'')),
            [Open (''data/'' @ coin @ ''.json'')])
         \<and> (\<forall>c \<in> set (snd (predict E coin)). \<forall>path.
               c \<noteq> JoblibLoad path \<and> c \<noteq> LoadModel path)"
  using assms
  by (simp add: predict_def predict_prices_def open_json_def bnd_Inr bnd_lift_Inr
      ret_def try_except_def)

theorem predict_insufficient_data_witness:
  "predict (btc_env (flat_series 59 100) (scalar_output 105)) ''btc'' =
     (Inr (Error (Msg ''Not enough data. Minimum 60 prices required.'')),
      [Open ''data/btc.json''])"
proof -
  have "read_json (btc_env (flat_series 59 100) (scalar_output 105))
          (''data/'' @ ''btc'' @ ''.json'') = Inr (JArr (replicate 59 (price_point 100)))"
    by (simp add: btc_env_def flat_series_def number_series_def price_point_def)
  moreover have "length (replicate 59 (price_point 100)) < 60"
    by simp
  ultimately show ?thesis
    using predict_insufficient_data by fastforce
qed

text \<open>
  C3. Whenever predict gets as far as a predicted price \<open>p\<close> and a last price \<open>l\<close>, it
  returns a result whose direction is "up" if \<open>p > l\<close> and "down" otherwise; so for
  finite prices the direction is "up" exactly when \<open>l < p\<close>, and when the two prices are
  equal the direction is "down".
\<close>

theorem predict_direction:
  assumes "fst (predict_prices E coin) = Inr (Inr (p, l))"
  shows "\<exists>r. fst (predict E coin) = Inr (Result r)
           \<and> prediction r = (if num_gt p l then ''up'' else ''down'')
           \<and> (\<forall>a b. p = Fin a \<and> l = Fin b \<longrightarrow> (prediction r = ''up'') = (b < a))
           \<and> (p = l \<longrightarrow> prediction r = ''down'')"
  using assms
  by (auto simp: predict_of_prices predict_result_def Let_def num_gt_def num_lt_def)

theorem predict_direction_witness:
  "\<exists>r. fst (predict (btc_env (flat_series 60 100) (scalar_output 100)) ''btc'')
          = Inr (Result r)
       \<and> prediction r = ''down''"
proof -
  let ?E = "btc_env (flat_series 60 100) (scalar_output 100)"
  have "fst (predict_prices ?E ''btc'') = Inr (Inr (Fin 100, Fin 100))"
    by (rule btc_prices_ok)
  from predict_direction[OF this] show ?thesis by auto
qed

text \<open>
  C4, as it holds. Whenever predict gets as far as a finite predicted price \<open>p\<close> and a
  finite last price \<open>l\<close>, it returns a result, never an error, and
  \<^item> for \<open>l \<noteq> 0\<close> the confidence is \<open>|p - l| / l\<close> as binary64 computes it, the
    difference and the quotient each rounded to the nearest float, and then rounded to
    4 decimal places;
  \<^item> for \<open>l > 0\<close> that value is non-negative, for \<open>l < 0\<close> it is not positive;
  \<^item> for \<open>l = 0\<close> the division is not guarded and raises nothing: the confidence is
    an infinity or NaN, not a finite number.
\<close>

theorem predict_confidence:
  assumes "fst (predict_prices E coin) = Inr (Inr (p, l))"
    and "num_finite p" and "num_finite l"
  shows "\<exists>r. fst (predict E coin) = Inr (Result r)
           \<and> (num_val l \<noteq> 0 \<longrightarrow>
                confidence r = py_round (num_div (num_abs (num_sub p l)) l) 4)
           \<and> (0 < num_val l \<longrightarrow> num_nonneg (confidence r))
           \<and> (num_val l < 0 \<longrightarrow> num_nonpos (confidence r))
           \<and> (num_val l = 0 \<longrightarrow> \<not> num_finite (confidence r))"
proof -
  let ?r = "predict_result p l"
  let ?c = "num_div (num_abs (num_sub p l)) l"
  have res: "fst (predict E coin) = Inr (Result ?r)"
    using assms(1) by (simp add: predict_of_prices)
  have conf: "confidence ?r = py_round ?c 4"
    by (simp add: predict_result_def Let_def)
  have b: "0 < num_val l \<longrightarrow> num_nonneg (confidence ?r)"
    using confidence_sign(1)[OF assms(2,3)] conf by (simp add: py_round_nonneg)
  have c: "num_val l < 0 \<longrightarrow> num_nonpos (confidence ?r)"
    using confidence_sign(2)[OF assms(2,3)] conf by (simp add: py_round_nonpos)
  have d: "num_val l = 0 \<longrightarrow> \<not> num_finite (confidence ?r)"
    using confidence_sign(3)[OF assms(2,3)] conf by (simp add: py_round_not_finite)
  from res conf b c d show ?thesis by blast
qed

theorem predict_confidence_witness:
  "(\<exists>r. fst (predict (btc_env (flat_series 60 100) (scalar_output 105)) ''btc'')
           = Inr (Result r)
        \<and> confidence r
            = py_round (num_div (num_abs (num_sub (Fin 105) (Fin 100))) (Fin 100)) 4
        \<and> num_nonneg (confidence r))
   \<and> (\<exists>r. fst (predict (btc_env (flat_series 60 0) (scalar_output 5)) ''btc'')
           = Inr (Result r)
        \<and> \<not> num_finite (confidence r))"
proof -
  have "fst (predict_prices (btc_env (flat_series 60 100) (scalar_output 105)) ''btc'')
          = Inr (Inr (Fin 105, Fin 100))"
    by (rule btc_prices_ok)
  from predict_confidence[OF this] have first:
    "\<exists>r. fst (predict (btc_env (flat_series 60 100) (scalar_output 105)) ''btc'')
           = Inr (Result r)
        \<and> confidence r
            = py_round (num_div (num_abs (num_sub (Fin 105) (Fin 100))) (Fin 100)) 4
        \<and> num_nonneg (confidence r)"
    by auto
  have "fst (predict_prices (btc_env (flat_series 60 0) (scalar_output 5)) ''btc'')
          = Inr (Inr (Fin 5, Fin 0))"
    by (rule btc_prices_ok)
  from predict_confidence[OF this] have second:
    "\<exists>r. fst (predict (btc_env (flat_series 60 0) (scalar_output 5)) ''btc'')
           = Inr (Result r)
        \<and> \<not> num_finite (confidence r)"
    by auto
  from first second show ?thesis by blast
qed

text \<open>
  C4 as stated fails: the last price \<open>-100\<close> is not zero, and with the predicted price
  \<open>-50\<close> the confidence is \<open>|-50 + 100| / -100 = -0.5\<close>, a negative value.
\<close>

theorem predict_negative_price_confidence:
  "fst (predict (btc_env (flat_series 60 (- 100)) (scalar_output (- 50))) ''btc'')
     = Inr (Result \<lparr>prediction = ''up'', confidence = Fin (- 1 / 2),
                    predicted_price = Fin (- 50), last_price = Fin (- 100)\<rparr>)
   \<and> \<not> num_nonneg (Fin (- 1 / 2))"
  by (simp add: btc_predict predict_result_def num_gt_def num_lt_def num_sub_def
      num_div_def decimal_float_def round_half_even_def fl_50 fl_minus_50 fl_minus_100
      fl_minus_half)

text \<open>
  C5, as it holds. For every environment and every coin, predict returns a payload
  and raises nothing; an exception raised anywhere in its body is returned as the
  error payload holding that exception's text; and the payload is either an error or
  the complete four-field result, never a part of it.
\<close>

theorem predict_never_raises:
  "\<exists>pl. fst (predict E coin) = Inr pl
     \<and> (\<forall>e. fst (predict_prices E coin) = Inl e \<longrightarrow> pl = Error (Str e))
     \<and> ((\<exists>er. pl = Error er) \<or> (\<exists>p l. pl = Result (predict_result p l)))"
proof (cases "fst (predict_prices E coin)")
  case (Inl e)
  then show ?thesis by (simp add: predict_of_prices)
next
  case (Inr v)
  show ?thesis
  proof (cases v)
    case (Inl early)
    with Inr show ?thesis
      by (simp add: predict_of_prices)
  next
    case inner: (Inr pr)
    with Inr show ?thesis
      by (cases pr) (auto simp: predict_of_prices)
  qed
qed

theorem predict_never_raises_witness:
  "fst (predict (btc_env (flat_series 60 100) (scalar_output 105)) ''eth'')
     = Inr (Error (Str no_such_file))"
proof -
  let ?E = "btc_env (flat_series 60 100) (scalar_output 105)"
  have raised: "fst (predict_prices ?E ''eth'') = Inl no_such_file"
    by (simp add: predict_prices_def open_json_def btc_env_def bnd_Inl)
  from predict_never_raises[of ?E "''eth''"] raised show ?thesis
    by auto
qed

text \<open>
  C5 as stated fails for the arithmetic degeneracy: with a last price of zero nothing
  is raised, so nothing is caught, and predict returns an ordinary result, with an
  infinite confidence, instead of an error payload.
\<close>

theorem predict_zero_price_is_no_error:
  "fst (predict (btc_env (flat_series 60 0) (scalar_output 5)) ''btc'')
     = Inr (Result \<lparr>prediction = ''up'', confidence = PInf,
                    predicted_price = Fin 5, last_price = Fin 0\<rparr>)"
  by (simp add: btc_predict predict_result_def num_gt_def num_lt_def num_sub_def
      num_div_def signed_inf_def decimal_float_def signed_zero_def round_half_even_def
      fl_5)



text \<open>
  C7. Whenever predict gets as far as a predicted price \<open>p\<close> and a last price \<open>l\<close>, the
  result it returns is made of the direction and of three numbers, each the outcome
  of Python's \<^verbatim>\<open>round\<close>: \<open>p\<close> and \<open>l\<close> rounded to 2 decimal places and the confidence
  \<open>|p - l| / l\<close> rounded to 4 decimal places. The result has no other field, so no
  unrounded value is in it.
\<close>

theorem predict_rounding:
  assumes "fst (predict_prices E coin) = Inr (Inr (p, l))"
  shows "fst (predict E coin) =
           Inr (Result \<lparr>prediction = (if num_gt p l then ''up'' else ''down''),
                        confidence = py_round (num_div (num_abs (num_sub p l)) l) 4,
                        predicted_price = py_round p 2,
                        last_price = py_round l 2\<rparr>)
       \<and> rounds_to 4 (num_div (num_abs (num_sub p l)) l)
                     (py_round (num_div (num_abs (num_sub p l)) l) 4)
       \<and> rounds_to 2 p (py_round p 2)
       \<and> rounds_to 2 l (py_round l 2)"
  using assms
  by (simp add: predict_of_prices predict_result_def Let_def py_round_rounds_to
      del: py_round.simps)

theorem predict_rounding_witness:
  "\<exists>c. fst (predict (btc_env (number_series 60 (fl (2675 / 1000))) (scalar_output 5))
               ''btc'')
          = Inr (Result \<lparr>prediction = ''up'', confidence = c,
                         predicted_price = Fin 5, last_price = fl (267 / 100)\<rparr>)"
proof -
  let ?E = "btc_env (number_series 60 (fl (2675 / 1000))) (scalar_output 5)"
  have stored: "fl (2675 / 1000) = Fin (3011782250804019 / 1125899906842624)"
    by (subst fl_scaled[where j = 51]) (simp_all add: round_half_even_def)
  have last: "py_round (fl (2675 / 1000)) 2 = fl (267 / 100)"
    unfolding stored by (simp add: decimal_float_def round_half_even_def)
  have predicted: "py_round (Fin 5) 2 = Fin 5"
    by (simp add: decimal_float_def round_half_even_def fl_5)
  have up: "num_gt (Fin 5) (fl (2675 / 1000))"
    unfolding stored by (simp add: num_gt_def num_lt_def)
  have "fst (predict_prices ?E ''btc'') = Inr (Inr (Fin 5, fl (2675 / 1000)))"
    unfolding scalar_output_def by (rule btc_number_prices_ok)
  from predict_rounding[OF this] show ?thesis
    by (simp only: last predicted up if_True) blast
qed

text \<open>
  C8. When the pipeline reaches the model and the model returns an array whose shape
  is not of the form \<open>(n, 1)\<close>, predict returns the error payload "Unexpected prediction
  shape: " followed by the shape, and raises nothing.
\<close>

theorem predict_unexpected_shape:
  assumes "read_json E (''data/'' @ coin @ ''.json'') = Inr (JArr ps)"
    and "60 \<le> length ps"
    and "get_prices (last_n 60 ps) = Inr vs"
    and "np_column vs = Inr W"
    and "joblib_load E (''models/'' @ coin @ ''_scaler.gz'') = Inr sc"
    and "load_model E (''models/'' @ coin @ ''.h5'') = Inr m"
    and "transform sc W = Inr W'"
    and "length W' = 60"
    and "model_predict m W' = Inr out"
    and "\<not> (length (shape out) = 2 \<and> shape out ! 1 = 1)"
  shows "fst (predict E coin) =
           Inr (Error (Msg (''Unexpected prediction shape: '' @ str_shape (shape out))))"
proof -
  have "np_array E vs = Inr (Inr W)"
    using assms(4) by (rule np_array_numeric)
  then have "fst (predict_prices E coin) =
          Inr (Inl (Msg (''Unexpected prediction shape: '' @ str_shape (shape out))))"
    using assms
    by (auto simp: predict_prices_def open_json_def do_joblib_load_def do_load_model_def
        bnd_Inr bnd_lift_Inr ret_def reshape_1_60_1_def)
  then show ?thesis
    by (simp add: predict_of_prices)
qed

theorem predict_unexpected_shape_witness:
  "fst (predict (btc_env (flat_series 60 100) \<lparr>shape = [1, 2], data = [Fin 1, Fin 2]\<rparr>)
          ''btc'')
     = Inr (Error (Msg ''Unexpected prediction shape: (1, 2)''))"
proof -
  let ?out = "\<lparr>shape = [1, 2], data = [Fin 1, Fin 2]\<rparr>"
  let ?E = "btc_env (flat_series 60 100) ?out"
  have "fst (predict ?E ''btc'') =
          Inr (Error (Msg (''Unexpected prediction shape: '' @ str_shape (shape ?out))))"
    by (rule predict_unexpected_shape[where ps = "replicate 60 (price_point 100)"
          and vs = "replicate 60 (JNum (Fin 100))" and sc = unit_scaler
          and m = "fixed_model ?out" and W = "replicate 60 (Fin 100)"
          and W' = "replicate 60 (Fin 100)"])
       (simp_all add: btc_env_def flat_series_def number_series_def price_point_def
          number_point_def unit_scaler_def fixed_model_def last_n_def
          get_prices_replicate np_column_replicate)
  then show ?thesis
    by (simp add: str_shape_def)
qed

text \<open>
  C9 fails on a file whose name holds \<^verbatim>\<open>.json\<close> twice. The data directory holds the
  one file \<^verbatim>\<open>a.json.json\<close>. It is the price file of the symbol \<^verbatim>\<open>a.json\<close>, which
  debug-prices reads, but the listing is the symbol \<^verbatim>\<open>a\<close>, which has no price file:
  debug-prices answers it with the error of the missing file.
\<close>

theorem available_coins_doubled_extension:
  "fst (available_coins (data_env [(''a.json.json'', JArr [JNum (Fin 7)])]))
     = Inr (Result [''a''])
   \<and> fst (debug_prices (data_env [(''a.json.json'', JArr [JNum (Fin 7)])]) ''a'')
     = Inr (Error (Str no_such_file))
   \<and> fst (debug_prices (data_env [(''a.json.json'', JArr [JNum (Fin 7)])]) ''a.json'')
     = Inr (Result \<lparr>coin_name = ''a.json'', last_60_prices = [JNum (Fin 7)]\<rparr>)"
  by (simp add: available_coins_def debug_prices_def os_listdir_def open_json_def
      data_env_def bnd_Inr bnd_Inl bnd_lift_Inr ret_def try_except_def py_endswith_def
      suffix_to_prefix last_n_def)

text \<open>
  C10. When the price file holds a list \<open>ps\<close> of any length, debug-prices returns a
  result, not an error: the last \<open>min (length ps) 60\<close> entries of \<open>ps\<close>, where an entry
  that is a record with a price field stands as the value of that field and every
  other entry stands as it is.
\<close>

theorem debug_prices_spec:
  assumes "read_json E (''data/'' @ coin @ ''.json'') = Inr (JArr ps)"
  shows "fst (debug_prices E coin) =
           Inr (Result \<lparr>coin_name = coin,
                        last_60_prices = map cleaned_entry (drop (length ps - 60) ps)\<rparr>)
       \<and> length (drop (length ps - 60) ps) = min (length ps) 60
       \<and> (\<forall>kvs v. map_of kvs ''price'' = Some v \<longrightarrow> cleaned_entry (JObj kvs) = v)
       \<and> (\<forall>e. (\<forall>kvs. e = JObj kvs \<longrightarrow> map_of kvs ''price'' = None)
               \<longrightarrow> cleaned_entry e = e)"
proof -
  have "fst (debug_prices E coin) =
          Inr (Result \<lparr>coin_name = coin,
                       last_60_prices = map cleaned_entry (drop (length ps - 60) ps)\<rparr>)"
    using assms
    by (simp add: debug_prices_def open_json_def bnd_Inr bnd_lift_Inr ret_def
        try_except_def Let_def last_n_drop drop_map)
  moreover have "length (drop (length ps - 60) ps) = min (length ps) 60"
    by simp
  moreover have "\<forall>e. (\<forall>kvs. e = JObj kvs \<longrightarrow> map_of kvs ''price'' = None)
                   \<longrightarrow> cleaned_entry e = e"
  proof (intro allI impI)
    fix e assume "\<forall>kvs. e = JObj kvs \<longrightarrow> map_of kvs ''price'' = None"
    then show "cleaned_entry e = e" by (cases e) simp_all
  qed
  ultimately show ?thesis by simp
qed

theorem debug_prices_spec_witness:
  "fst (debug_prices
          (btc_env (JArr [price_point 7, JNum (Fin 8), JObj [(''time'', JNum (Fin 9))]])
             (scalar_output 0)) ''btc'')
     = Inr (Result \<lparr>coin_name = ''btc'',
                    last_60_prices =
                      [JNum (Fin 7), JNum (Fin 8), JObj [(''time'', JNum (Fin 9))]]\<rparr>)"
proof -
  let ?ps = "[price_point 7, JNum (Fin 8), JObj [(''time'', JNum (Fin 9))]]"
  have "read_json (btc_env (JArr ?ps) (scalar_output 0)) (''data/'' @ ''btc'' @ ''.json'')
          = Inr (JArr ?ps)"
    by (simp add: btc_env_def)
  from debug_prices_spec[OF this] show ?thesis
    by (simp add: price_point_def number_point_def)
qed

end
